theory Spec2Isabelle
  imports Main
begin

section \<open>gulp-sass-embedded: a shallow embedding of \<^verbatim>\<open>index.js\<close>\<close>

text \<open>
  The plugin exports three things: \<^verbatim>\<open>createCompileArguments\<close> (the argument builder),
  \<^verbatim>\<open>formatSassError\<close> (the error normalizer) and the stream transform
  \<^verbatim>\<open>gulpSassEmbedded\<close> with its \<^verbatim>\<open>open\<close>, \<^verbatim>\<open>transform\<close> and \<^verbatim>\<open>destroy\<close> hooks.
  JavaScript strings and buffers are both modelled as \<^typ>\<open>string\<close>, read as UTF-8 byte
  sequences, so that \<^verbatim>\<open>Buffer.from(s)\<close> and \<^verbatim>\<open>buf.toString()\<close> are the identity and
  \<^verbatim>\<open>buf.length\<close> is the length of the list. Numbers are integers (line and column
  indices), on which JavaScript's addition is exact. The hook \<^verbatim>\<open>open\<close> is \<^verbatim>\<open>open_hook\<close>
  here; every other function keeps its name.
\<close>

subsection \<open>JavaScript values\<close>

text \<open>
  Primitive values, for the places where the code inspects the type of what it was given
  (\<^verbatim>\<open>typeof path === 'string'\<close>, the \<^verbatim>\<open>switch\<close> on \<^verbatim>\<open>extname\<close>).
\<close>

datatype js_value = JUndefined | JNull | JBoolean bool | JNumber int | JString string

subsection \<open>Error objects\<close>

text \<open>
  The fields of an error object that the plugin reads or writes. A field that is absent
  (or holds \<^verbatim>\<open>undefined\<close> or \<^verbatim>\<open>null\<close>) is \<^term>\<open>None\<close>. The start point of a span has
  the fields \<^verbatim>\<open>line\<close> and \<^verbatim>\<open>column\<close>; the normalizer writes fields of the same names
  on the error itself.
\<close>

record source_location =
  line :: "int option"
  column :: "int option"

record source_span =
  start :: "source_location option"

record error_object =
  span :: "source_span option"
  sassMessage :: "string option"
  message :: "string option"
  line :: "int option"
  column :: "int option"
  messageOriginal :: "string option"
  messageFormatted :: "string option"

text \<open>\<^verbatim>\<open>new Error(msg)\<close>, \<^verbatim>\<open>new TypeError(msg)\<close>: an object with a message and nothing else.\<close>

definition new_Error :: "string \<Rightarrow> error_object" where
  "new_Error msg =
     \<lparr>span = None, sassMessage = None, message = Some msg,
      error_object.line = None, error_object.column = None,
      messageOriginal = None, messageFormatted = None\<rparr>"

subsection \<open>Assets and options\<close>

text \<open>
  A Vinyl file holds \<^verbatim>\<open>null\<close>, a stream or a buffer as its contents;
  \<^verbatim>\<open>isNull()\<close> and \<^verbatim>\<open>isStream()\<close> test which. The plugin reads the asset through its
  properties, so the asset is the record of those properties: \<^term>\<open>None\<close> is a property
  that is \<^verbatim>\<open>undefined\<close>, as on the plain objects that \<^verbatim>\<open>createCompileArguments\<close> also
  accepts. On a Vinyl file \<^verbatim>\<open>basename\<close>, \<^verbatim>\<open>extname\<close> and \<^verbatim>\<open>dirname\<close> are getters over
  the path; the record holds what they return when the asset enters the plugin.
\<close>

datatype contents = NullContents | StreamContents | BufferContents string

record raw_source_map =
  "file" :: "string option"
  mappings :: string

record stat =
  atime :: "int option"
  mtime :: "int option"
  ctime :: "int option"

record vinyl =
  path :: "string option"
  basename :: "string option"
  extname :: js_value
  dirname :: js_value
  contents :: "contents option"
  sourceMap :: "raw_source_map option"
  stat :: "stat option"

definition isNull :: "vinyl \<Rightarrow> bool" where
  "isNull f = (contents f = Some NullContents)"

definition isStream :: "vinyl \<Rightarrow> bool" where
  "isStream f = (contents f = Some StreamContents)"

text \<open>
  The plugin's options: \<^verbatim>\<open>sync\<close> and \<^verbatim>\<open>loadPaths\<close> are read by the plugin, every other
  key (\<^verbatim>\<open>style\<close>, \<^verbatim>\<open>importers\<close>, \<^verbatim>\<open>functions\<close>, ...) is passed through to the compiler.
\<close>

record options =
  sync :: bool
  loadPaths :: "js_value list option"
  passthrough :: "(string \<times> js_value) list"

text \<open>The default \<^verbatim>\<open>options = {}\<close>.\<close>

definition no_options :: options where
  "no_options = \<lparr>sync = False, loadPaths = None, passthrough = []\<rparr>"

text \<open>
  The options object handed to the compiler: \<^verbatim>\<open>{...options, url, sourceMap,
  sourceMapIncludeSources, syntax, loadPaths}\<close>.
\<close>

record compile_options =
  sync :: bool
  passthrough :: "(string \<times> js_value) list"
  url :: string
  sourceMap :: bool
  sourceMapIncludeSources :: bool
  "syntax" :: string
  loadPaths :: "js_value list"

subsection \<open>The argument builder\<close>

text \<open>
  \<^verbatim>\<open>new Set(xs)\<close> adds the elements of \<^verbatim>\<open>xs\<close> in order, and \<^verbatim>\<open>add\<close> leaves the set
  as it is when the element is already there; spreading the set lists its elements in
  insertion order. The set is the list of its elements in that order.
\<close>

definition Set_add :: "'a list \<Rightarrow> 'a \<Rightarrow> 'a list" where
  "Set_add s x = (if x \<in> set s then s else s @ [x])"

definition new_Set :: "'a list \<Rightarrow> 'a list" where
  "new_Set xs = foldl Set_add [] xs"

text \<open>The filter \<^verbatim>\<open>typeof path === 'string' && path.length > 0\<close>.\<close>

fun is_path :: "js_value \<Rightarrow> bool" where
  "is_path (JString s) = (length s > 0)"
| "is_path _ = False"

text \<open>A destructuring default \<^verbatim>\<open>{ x = d }\<close> applies when the property is \<^verbatim>\<open>undefined\<close>.\<close>

fun default_value :: "js_value \<Rightarrow> js_value \<Rightarrow> js_value" where
  "default_value d JUndefined = d"
| "default_value d v = v"

text \<open>The \<^verbatim>\<open>switch (extname)\<close>: strict equality with the two string literals.\<close>

definition fileSyntax :: "js_value \<Rightarrow> string" where
  "fileSyntax ext =
     (if ext = JString ''.sass'' then ''indented''
      else if ext = JString ''.css'' then ''css''
      else ''scss'')"

text \<open>
  \<^verbatim>\<open>contents.toString()\<close>: the default \<^verbatim>\<open>''\<close> and a buffer give their text, a stream
  object gives \<^verbatim>\<open>[object Object]\<close>, and \<^verbatim>\<open>null\<close> has no properties.
\<close>

fun contents_toString :: "contents option \<Rightarrow> error_object + string" where
  "contents_toString None = Inr ''''"
| "contents_toString (Some (BufferContents b)) = Inr b"
| "contents_toString (Some StreamContents) = Inr ''[object Object]''"
| "contents_toString (Some NullContents) =
     Inl (new_Error ''Cannot read properties of null (reading 'toString')'')"

text \<open>The properties destructured from \<^verbatim>\<open>file || {}\<close>, with the defaults of the source.\<close>

definition file_path :: "vinyl option \<Rightarrow> string" where
  "file_path asset = (case asset of None \<Rightarrow> '''' | Some f \<Rightarrow> (case path f of None \<Rightarrow> '''' | Some p \<Rightarrow> p))"

definition file_extname :: "vinyl option \<Rightarrow> js_value" where
  "file_extname asset = (case asset of None \<Rightarrow> JString '''' | Some f \<Rightarrow> default_value (JString '''') (extname f))"

definition file_dirname :: "vinyl option \<Rightarrow> js_value" where
  "file_dirname asset = (case asset of None \<Rightarrow> JString '''' | Some f \<Rightarrow> default_value (JString '''') (dirname f))"

definition file_contents :: "vinyl option \<Rightarrow> contents option" where
  "file_contents asset = (case asset of None \<Rightarrow> None | Some f \<Rightarrow> contents f)"

definition file_sourceMap :: "vinyl option \<Rightarrow> bool" where
  "file_sourceMap asset = (case asset of None \<Rightarrow> False | Some f \<Rightarrow> vinyl.sourceMap f \<noteq> None)"

definition options_loadPaths :: "options \<Rightarrow> js_value list" where
  "options_loadPaths opts = (case options.loadPaths opts of None \<Rightarrow> [] | Some ps \<Rightarrow> ps)"

text \<open>
  \<^verbatim>\<open>createCompileArguments(file, options)\<close>. \<^verbatim>\<open>pathToFileURL\<close> (of \<^verbatim>\<open>node:url\<close>) is a
  parameter; the URL is its text.
\<close>

definition createCompileArguments ::
  "(string \<Rightarrow> string) \<Rightarrow> vinyl option \<Rightarrow> options \<Rightarrow> error_object + (string \<times> compile_options)" where
  "createCompileArguments pathToFileURL asset opts =
     (case contents_toString (file_contents asset) of
        Inl e \<Rightarrow> Inl e
      | Inr text \<Rightarrow>
          Inr (text,
            \<lparr>compile_options.sync = options.sync opts,
             compile_options.passthrough = options.passthrough opts,
             url = pathToFileURL (file_path asset),
             compile_options.sourceMap = file_sourceMap asset,
             sourceMapIncludeSources = file_sourceMap asset,
             syntax = fileSyntax (file_extname asset),
             compile_options.loadPaths =
               new_Set (filter is_path (file_dirname asset # options_loadPaths opts))\<rparr>))"

subsection \<open>The error normalizer\<close>

text \<open>
  The writes of \<^verbatim>\<open>formatSassError\<close> to an error object: \<^verbatim>\<open>line\<close> and \<^verbatim>\<open>column\<close> when
  \<^verbatim>\<open>error?.span?.start\<close> is there (\<^verbatim>\<open>?? 0\<close> for a missing field), then
  \<^verbatim>\<open>messageOriginal = sassMessage ?? message\<close> and \<^verbatim>\<open>messageFormatted = message\<close>.
\<close>

definition nullish_default :: "'a \<Rightarrow> 'a option \<Rightarrow> 'a" where
  "nullish_default d v = (case v of None \<Rightarrow> d | Some x \<Rightarrow> x)"

definition span_start :: "error_object \<Rightarrow> source_location option" where
  "span_start e = (case span e of None \<Rightarrow> None | Some sp \<Rightarrow> start sp)"

definition annotate :: "error_object \<Rightarrow> error_object" where
  "annotate e =
     (let e1 = (case span_start e of
                  None \<Rightarrow> e
                | Some st \<Rightarrow>
                    e\<lparr>error_object.line := Some (nullish_default 0 (source_location.line st) + 1),
                      error_object.column := Some (nullish_default 0 (source_location.column st) + 1)\<rparr>);
          e2 = e1\<lparr>messageOriginal :=
                    (case sassMessage e1 of None \<Rightarrow> message e1 | Some m \<Rightarrow> Some m)\<rparr>
      in e2\<lparr>messageFormatted := message e2\<rparr>)"

text \<open>
  Error objects live in a store, and a reference is an index into it: the normalizer
  mutates the object it is given and returns the same reference, or allocates the
  generic error when it is given none (\<^verbatim>\<open>!error\<close>).
\<close>

type_synonym ref = nat

type_synonym heap = "error_object list"

definition formatSassError :: "heap \<Rightarrow> ref option \<Rightarrow> heap \<times> ref" where
  "formatSassError h error =
     (case error of
        None \<Rightarrow> (h @ [new_Error ''No error message provided''], length h)
      | Some r \<Rightarrow> (h[r := annotate (h ! r)], r))"

subsection \<open>Plugin errors\<close>

definition PLUGIN_NAME :: string where
  "PLUGIN_NAME = ''gulp-sass-embedded''"

datatype plugin_cause = Message string | Cause error_object

record plugin_error =
  plugin :: string
  cause :: plugin_cause
  showProperties :: bool

text \<open>\<^verbatim>\<open>new PluginError(plugin, error, {showProperties})\<close>; the flag is \<^verbatim>\<open>true\<close> when not given.\<close>

definition PluginError :: "string \<Rightarrow> plugin_cause \<Rightarrow> bool \<Rightarrow> plugin_error" where
  "PluginError name c sp = \<lparr>plugin = name, cause = c, showProperties = sp\<rparr>"

text \<open>The error of the stream check, \<^verbatim>\<open>new PluginError(PLUGIN_NAME, 'Streams are not supported!')\<close>.\<close>

definition streams_not_supported :: plugin_error where
  "streams_not_supported =
     \<lparr>plugin = ''gulp-sass-embedded'', cause = Message ''Streams are not supported!'',
      showProperties = True\<rparr>"

subsection \<open>The compiler and the other collaborators\<close>

record compile_result =
  css :: string
  sourceMap :: "raw_source_map option"

text \<open>
  A compiler instance: its two compile entry points, each returning a result or throwing
  an error object, and \<^verbatim>\<open>dispose\<close>, which returns or throws.
\<close>

record compiler =
  compileString :: "string \<Rightarrow> compile_options \<Rightarrow> error_object + compile_result"
  compileStringAsync :: "string \<Rightarrow> compile_options \<Rightarrow> error_object + compile_result"
  dispose :: "error_object option"

text \<open>
  What the plugin imports: the two factories of \<^verbatim>\<open>sass-embedded\<close>, \<^verbatim>\<open>pathToFileURL\<close>,
  \<^verbatim>\<open>replaceExtension\<close>, \<^verbatim>\<open>applySourceMap\<close>, and the reading of \<^verbatim>\<open>new Date()\<close>.
\<close>

record env =
  initCompiler :: "error_object + compiler"
  initAsyncCompiler :: "error_object + compiler"
  pathToFileURL :: "string \<Rightarrow> string"
  replaceExtension :: "string \<Rightarrow> string \<Rightarrow> string"
  applySourceMap :: "vinyl \<Rightarrow> raw_source_map \<Rightarrow> vinyl"
  now :: int

subsection \<open>The transform\<close>

text \<open>
  The state of one plugin instance: the closure variable \<^verbatim>\<open>compiler\<close>, and what an
  observer of the run sees: the compile calls made (a spy on the compiler), the number of
  \<^verbatim>\<open>dispose\<close> calls, and the \<^verbatim>\<open>error\<close> events emitted on the stream.
\<close>

record engine =
  compiler :: "compiler option"
  compiled :: "(string \<times> compile_options) list"
  disposed :: nat
  emitted :: "plugin_error list"

definition initial :: engine where
  "initial = \<lparr>compiler = None, compiled = [], disposed = 0, emitted = []\<rparr>"

text \<open>
  A hook ends by calling \<^verbatim>\<open>callback(error, data)\<close>: \<^verbatim>\<open>callback()\<close> is
  \<^term>\<open>Callback None None\<close>, \<^verbatim>\<open>callback(null, file)\<close> is \<^term>\<open>Callback None (Some f)\<close>.
\<close>

datatype callback = Callback "plugin_error option" "vinyl option"

definition open_hook :: "options \<Rightarrow> env \<Rightarrow> engine \<Rightarrow> callback \<times> engine" where
  "open_hook opts env s =
     (case (if options.sync opts then initCompiler env else initAsyncCompiler env) of
        Inr c \<Rightarrow> (Callback None None, s\<lparr>compiler := Some c\<rparr>)
      | Inl e \<Rightarrow> (Callback (Some (PluginError PLUGIN_NAME (Cause e) True)) None, s))"

definition startsWith :: "string \<Rightarrow> string \<Rightarrow> bool" where
  "startsWith s p = (take (length p) s = p)"

text \<open>
  \<^verbatim>\<open>compiler.compileString(...compileArguments)\<close> or its asynchronous twin, awaited. The
  call is recorded; a \<^verbatim>\<open>compiler\<close> that is still \<^verbatim>\<open>undefined\<close> has no such method.
\<close>

definition compile_call ::
  "options \<Rightarrow> engine \<Rightarrow> string \<times> compile_options \<Rightarrow> (error_object + compile_result) \<times> engine" where
  "compile_call opts s args =
     (case compiler s of
        None \<Rightarrow>
          (Inl (new_Error (if options.sync opts
                           then ''Cannot read properties of undefined (reading 'compileString')''
                           else ''Cannot read properties of undefined (reading 'compileStringAsync')'')), s)
      | Some c \<Rightarrow>
          ((if options.sync opts then compileString c else compileStringAsync c) (fst args) (snd args),
           s\<lparr>compiled := compiled s @ [args]\<rparr>))"

text \<open>\<^verbatim>\<open>file.path = replaceExtension(file.path, '.css')\<close>; a path that is not a string is returned as it is.\<close>

definition rewrite_path :: "env \<Rightarrow> vinyl \<Rightarrow> vinyl" where
  "rewrite_path env f = f\<lparr>path := map_option (\<lambda>p. replaceExtension env p ''.css'') (path f)\<rparr>"

text \<open>The stamping of \<^verbatim>\<open>file.stat\<close>, when there is one.\<close>

definition touch :: "env \<Rightarrow> vinyl \<Rightarrow> vinyl" where
  "touch env f =
     (case stat f of
        None \<Rightarrow> f
      | Some st \<Rightarrow> f\<lparr>stat := Some (st\<lparr>atime := Some (now env), mtime := Some (now env), ctime := Some (now env)\<rparr>)\<rparr>)"

text \<open>\<^verbatim>\<open>sourceMap.file ??= file.path; applySourceMap(file, sourceMap)\<close>, when a map came back.\<close>

definition merge_sourceMap :: "env \<Rightarrow> vinyl \<Rightarrow> raw_source_map option \<Rightarrow> vinyl" where
  "merge_sourceMap env f sm =
     (case sm of
        None \<Rightarrow> f
      | Some m \<Rightarrow>
          applySourceMap env f
            (m\<lparr>file := (case file m of None \<Rightarrow> path f | Some x \<Rightarrow> Some x)\<rparr>))"

text \<open>
  The \<^verbatim>\<open>try\<close> block of \<^verbatim>\<open>transform(file, callback)\<close>: \<^term>\<open>Inr\<close> is the callback it
  makes, \<^term>\<open>Inl\<close> the value it throws. Past the null and stream checks the contents are a
  buffer, or \<^verbatim>\<open>undefined\<close> on an object that is not a Vinyl file.
\<close>

definition transform_try :: "options \<Rightarrow> env \<Rightarrow> engine \<Rightarrow> vinyl \<Rightarrow> (error_object + callback) \<times> engine" where
  "transform_try opts env s f =
     (if isNull f then (Inr (Callback None (Some f)), s)
      else if isStream f then
        (Inr (Callback (Some (PluginError PLUGIN_NAME (Message ''Streams are not supported!'') True)) None), s)
      else case basename f of
        None \<Rightarrow> (Inl (new_Error ''Cannot read properties of undefined (reading 'startsWith')''), s)
      | Some b \<Rightarrow>
          if startsWith b ''_'' then (Inr (Callback None None), s)
          else case contents f of
            None \<Rightarrow> (Inl (new_Error ''Cannot read properties of undefined (reading 'length')''), s)
          | Some c \<Rightarrow>
              if c = BufferContents [] then (Inr (Callback None (Some (rewrite_path env f))), s)
              else case createCompileArguments (pathToFileURL env) (Some f) opts of
                Inl e \<Rightarrow> (Inl e, s)
              | Inr args \<Rightarrow>
                  (case compile_call opts s args of
                     (Inl e, s') \<Rightarrow> (Inl e, s')
                   | (Inr res, s') \<Rightarrow>
                       (Inr (Callback None
                          (Some (merge_sourceMap env
                                   (touch env (rewrite_path env (f\<lparr>contents := Some (BufferContents (css res))\<rparr>)))
                                   (compile_result.sourceMap res)))), s')))"

text \<open>
  The hook: what is thrown inside the \<^verbatim>\<open>try\<close> is an error object, alone in its store;
  the \<^verbatim>\<open>catch\<close> calls back with
  \<^verbatim>\<open>new PluginError(PLUGIN_NAME, formatSassError(error), {showProperties: false})\<close>.
\<close>

definition transform :: "options \<Rightarrow> env \<Rightarrow> engine \<Rightarrow> vinyl \<Rightarrow> callback \<times> engine" where
  "transform opts env s f =
     (case transform_try opts env s f of
        (Inr cb, s') \<Rightarrow> (cb, s')
      | (Inl e, s') \<Rightarrow>
          (case formatSassError [e] (Some 0) of
             (h, r) \<Rightarrow> (Callback (Some (PluginError PLUGIN_NAME (Cause (h ! r)) False)) None, s')))"

text \<open>
  \<^verbatim>\<open>destroy(callback)\<close>: \<^verbatim>\<open>dispose\<close> is awaited only \<^verbatim>\<open>if (compiler)\<close>. When it throws, the
  \<^verbatim>\<open>catch\<close> emits an \<^verbatim>\<open>error\<close> event on the stream, recorded in \<^term>\<open>emitted\<close> (a listener
  for the event is attached, as in the tests), and then calls \<^verbatim>\<open>callback()\<close> all the same.
\<close>

definition destroy :: "engine \<Rightarrow> callback \<times> engine" where
  "destroy s =
     (case compiler s of
        None \<Rightarrow> (Callback None None, s)
      | Some c \<Rightarrow>
          (case dispose c of
             None \<Rightarrow> (Callback None None, s\<lparr>disposed := disposed s + 1\<rparr>)
           | Some e \<Rightarrow>
               (Callback None None,
                s\<lparr>disposed := disposed s + 1,
                  emitted := emitted s @ [PluginError PLUGIN_NAME (Cause e) False]\<rparr>)))"

subsection \<open>One run of the stream\<close>

text \<open>
  Modelled from the spec: the stream that hosts the hooks (the \<^verbatim>\<open>Transform\<close> class of
  \<^verbatim>\<open>streamx\<close>, a dependency that is not part of the source). It processes the assets in
  strict arrival order, one in flight at a time, pushes the data of each callback
  downstream, and aborts at the first callback that carries an error: no further asset is
  processed.
\<close>

fun write_all ::
  "options \<Rightarrow> env \<Rightarrow> engine \<Rightarrow> vinyl list \<Rightarrow> vinyl list \<times> plugin_error option \<times> engine" where
  "write_all opts env s [] = ([], None, s)"
| "write_all opts env s (f # fs) =
     (case transform opts env s f of
        (Callback (Some err) d, s') \<Rightarrow> ([], Some err, s')
      | (Callback None d, s') \<Rightarrow>
          (case write_all opts env s' fs of
             (out, err, s'') \<Rightarrow> ((case d of None \<Rightarrow> [] | Some g \<Rightarrow> [g]) @ out, err, s'')))"

text \<open>
  Modelled from the spec: the life cycle of the host stream. \<^verbatim>\<open>open\<close> runs once, on the
  first activation and before any asset; when it fails the stream is aborted before any
  asset is processed. \<^verbatim>\<open>destroy\<close> runs once, after the last asset or after the stream was
  aborted for any reason. The result of a run is what went downstream, the error that
  aborted it if any, the callback of \<^verbatim>\<open>destroy\<close>, and the engine at the end.
\<close>

record run_result =
  pushed :: "vinyl list"
  failure :: "plugin_error option"
  teardown :: callback
  final :: engine

definition run :: "options \<Rightarrow> env \<Rightarrow> vinyl list \<Rightarrow> run_result" where
  "run opts env files =
     (case open_hook opts env initial of
        (Callback (Some err) d, s) \<Rightarrow>
          (case destroy s of
             (cb, s') \<Rightarrow> \<lparr>pushed = [], failure = Some err, teardown = cb, final = s'\<rparr>)
      | (Callback None d, s) \<Rightarrow>
          (case write_all opts env s files of
             (out, err, s') \<Rightarrow>
               (case destroy s' of
                  (cb, s'') \<Rightarrow> \<lparr>pushed = out, failure = err, teardown = cb, final = s''\<rparr>)))"

subsection \<open>The search-path list as the specification words it\<close>

text \<open>
  De-duplication that keeps the first occurrence of every entry, in order; and the
  search-path list: the de-duplicated concatenation of the asset's directory and the
  caller's search paths, without the entries that are not non-empty strings.
\<close>

fun dedup_first_seen :: "'a list \<Rightarrow> 'a list" where
  "dedup_first_seen [] = []"
| "dedup_first_seen (x # xs) = x # dedup_first_seen (filter (\<lambda>y. y \<noteq> x) xs)"

definition searchPaths_spec :: "js_value \<Rightarrow> js_value list \<Rightarrow> js_value list" where
  "searchPaths_spec assetDirectory callerSearchPaths =
     filter is_path (dedup_first_seen (assetDirectory # callerSearchPaths))"

subsection \<open>Example inputs\<close>

text \<open>
  The objects of the test suite: a stylesheet \<^verbatim>\<open>/path/to/styles\<close> with a given extension, raw
  errors with and without a span, files under \<^verbatim>\<open>/scss\<close>, a compiler that returns its input
  as the CSS, one whose every compile call throws an error at 5:10, and collaborators to run
  them with: \<^verbatim>\<open>pathToFileURL\<close> as the mock of the tests (\<^verbatim>\<open>file://\<close> in front of the path), a
  \<^verbatim>\<open>replaceExtension\<close> that replaces what follows the last dot, an \<^verbatim>\<open>applySourceMap\<close> that
  stores the map on the file.
\<close>

definition styles :: "js_value \<Rightarrow> vinyl" where
  "styles ext =
     \<lparr>path = Some ''/path/to/styles'', basename = Some ''styles'', extname = ext,
      dirname = JString ''/path/to'', contents = Some (BufferContents ''a''),
      vinyl.sourceMap = None, stat = None\<rparr>"

definition raw_error :: "source_span option \<Rightarrow> string option \<Rightarrow> error_object" where
  "raw_error sp sm =
     \<lparr>span = sp, sassMessage = sm, message = Some ''Generic error message'',
      error_object.line = None, error_object.column = None,
      messageOriginal = None, messageFormatted = None\<rparr>"

definition span_at :: "int option \<Rightarrow> int option \<Rightarrow> source_span" where
  "span_at l c = \<lparr>start = Some \<lparr>source_location.line = l, source_location.column = c\<rparr>\<rparr>"

definition echo_compiler :: "error_object option \<Rightarrow> compiler" where
  "echo_compiler d =
     \<lparr>compileString = (\<lambda>src co. Inr \<lparr>css = src, compile_result.sourceMap = None\<rparr>),
      compileStringAsync = (\<lambda>src co. Inr \<lparr>css = src, compile_result.sourceMap = None\<rparr>),
      dispose = d\<rparr>"

definition example_env :: "error_object + compiler \<Rightarrow> env" where
  "example_env c =
     \<lparr>initCompiler = c, initAsyncCompiler = c,
      pathToFileURL = (\<lambda>p. ''file://'' @ p),
      replaceExtension = (\<lambda>p ext. rev (tl (dropWhile (\<lambda>ch. ch \<noteq> CHR ''.'') (rev p))) @ ext),
      applySourceMap = (\<lambda>f m. f\<lparr>vinyl.sourceMap := Some m\<rparr>),
      now = 0\<rparr>"

definition scss_file :: "string \<Rightarrow> contents \<Rightarrow> vinyl" where
  "scss_file name c =
     \<lparr>path = Some (''/scss/'' @ name @ ''.scss''), basename = Some (name @ ''.scss''),
      extname = JString ''.scss'', dirname = JString ''/scss'', contents = Some c,
      vinyl.sourceMap = None, stat = None\<rparr>"

definition failing_compiler :: compiler where
  "failing_compiler =
     \<lparr>compileString = (\<lambda>src co. Inl (raw_error (Some (span_at (Some 5) (Some 10))) (Some ''expected selector.''))),
      compileStringAsync = (\<lambda>src co. Inl (raw_error (Some (span_at (Some 5) (Some 10))) (Some ''expected selector.''))),
      dispose = None\<rparr>"

section \<open>Properties\<close>

subsection \<open>Helper lemmas: first-seen de-duplication\<close>

text \<open>
  The set built by \<^verbatim>\<open>new Set\<close> lists its elements as \<^const>\<open>dedup_first_seen\<close> does, and
  filtering commutes with de-duplication.
\<close>

lemma foldl_Set_add:
  "foldl Set_add acc xs = acc @ dedup_first_seen (filter (\<lambda>x. x \<notin> set acc) xs)"
proof (induction xs arbitrary: acc)
  case Nil
  then show ?case by simp
next
  case (Cons x xs)
  show ?case
  proof (cases "x \<in> set acc")
    case True
    then show ?thesis using Cons.IH [of acc] by (simp add: Set_add_def)
  next
    case False
    have "filter (\<lambda>y. y \<notin> set (acc @ [x])) xs = filter (\<lambda>y. y \<noteq> x) (filter (\<lambda>y. y \<notin> set acc) xs)"
      by (induction xs) auto
    then show ?thesis using False Cons.IH [of "acc @ [x]"] by (simp add: Set_add_def)
  qed
qed

lemma new_Set_dedup: "new_Set xs = dedup_first_seen xs"
  by (simp add: new_Set_def foldl_Set_add)

lemma filter_dedup_first_seen:
  "filter P (dedup_first_seen xs) = dedup_first_seen (filter P xs)"
proof (induction xs rule: dedup_first_seen.induct)
  case 1
  then show ?case by simp
next
  case (2 x xs)
  have IH: "filter P (dedup_first_seen (filter (\<lambda>y. y \<noteq> x) xs)) =
            dedup_first_seen (filter P (filter (\<lambda>y. y \<noteq> x) xs))"
    using 2 by simp
  have comm: "filter P (filter (\<lambda>y. y \<noteq> x) xs) = filter (\<lambda>y. y \<noteq> x) (filter P xs)"
    by (induction xs) auto
  show ?case
  proof (cases "P x")
    case True
    then show ?thesis using IH comm by simp
  next
    case False
    then have "filter (\<lambda>y. y \<noteq> x) (filter P xs) = filter P xs"
      by (induction xs) auto
    then show ?thesis using False IH comm by simp
  qed
qed

lemma set_dedup_first_seen: "set (dedup_first_seen xs) = set xs"
  by (induction xs rule: dedup_first_seen.induct) auto

lemma distinct_dedup_first_seen: "distinct (dedup_first_seen xs)"
  by (induction xs rule: dedup_first_seen.induct) (auto simp: set_dedup_first_seen)

subsection \<open>Helper lemmas: the normalizer's writes\<close>

lemma annotate_idem: "annotate (annotate e) = annotate e"
  by (simp add: annotate_def span_start_def Let_def split: option.splits)

lemma annotate_reads:
  "span (annotate e) = span e" "sassMessage (annotate e) = sassMessage e" "message (annotate e) = message e"
  by (simp_all add: annotate_def span_start_def Let_def split: option.splits)

subsection \<open>Helper lemmas: the run\<close>

text \<open>
  \<^verbatim>\<open>transform\<close> touches nothing of the engine but the record of compile calls, and a run
  over two lists of assets is the run over the first followed, when it did not fail, by
  the run over the second.
\<close>

lemma transform_keeps_engine:
  "compiler (snd (transform opts env s f)) = compiler s
   \<and> disposed (snd (transform opts env s f)) = disposed s
   \<and> emitted (snd (transform opts env s f)) = emitted s"
  by (auto simp: transform_def transform_try_def compile_call_def formatSassError_def
           split: option.splits sum.splits prod.splits if_splits)

lemma write_all_keeps_engine:
  "compiler (snd (snd (write_all opts env s fs))) = compiler s
   \<and> disposed (snd (snd (write_all opts env s fs))) = disposed s
   \<and> emitted (snd (snd (write_all opts env s fs))) = emitted s"
proof (induction fs arbitrary: s)
  case Nil
  then show ?case by simp
next
  case (Cons f fs)
  obtain err d s' where t: "transform opts env s f = (Callback err d, s')"
    by (metis callback.exhaust surj_pair)
  have k: "compiler s' = compiler s \<and> disposed s' = disposed s \<and> emitted s' = emitted s"
    using transform_keeps_engine [of opts env s f] t by simp
  show ?case
  proof (cases err)
    case None
    then show ?thesis using t k Cons.IH [of s'] by (auto split: prod.splits)
  next
    case (Some e)
    then show ?thesis using t k by simp
  qed
qed

lemma write_all_append:
  "write_all opts env s (xs @ ys) =
     (case write_all opts env s xs of
        (out, Some e, s') \<Rightarrow> (out, Some e, s')
      | (out, None, s') \<Rightarrow>
          (case write_all opts env s' ys of (out', err, s'') \<Rightarrow> (out @ out', err, s'')))"
proof (induction xs arbitrary: s)
  case Nil
  then show ?case by (simp split: prod.splits)
next
  case (Cons f fs)
  obtain err d s' where t: "transform opts env s f = (Callback err d, s')"
    by (metis callback.exhaust surj_pair)
  show ?case
  proof (cases err)
    case None
    then show ?thesis using t Cons.IH [of s'] by (simp split: prod.splits option.splits)
  next
    case (Some e)
    then show ?thesis using t by simp
  qed
qed

lemma destroy_calls_back: "fst (destroy s) = Callback None None"
  by (simp add: destroy_def split: option.splits)

lemmas run_simps =
  run_def open_hook_def destroy_def transform_def transform_try_def isNull_def isStream_def
  startsWith_def rewrite_path_def PluginError_def PLUGIN_NAME_def initial_def no_options_def

lemmas example_simps =
  echo_compiler_def example_env_def scss_file_def streams_not_supported_def

subsection \<open>The model on the examples of the test suite\<close>

text \<open>
  One stylesheet through a compiler that echoes its input, and a compile failure at 5:10
  followed by an asset that is never reached.
\<close>

lemma run_compiles_example:
  "pushed (run no_options (example_env (Inr (echo_compiler None))) [scss_file ''style'' (BufferContents ''a { b: c }'')])
     = [(scss_file ''style'' (BufferContents ''a { b: c }''))\<lparr>path := Some ''/scss/style.css''\<rparr>]
   \<and> map fst (compiled (final (run no_options (example_env (Inr (echo_compiler None)))
        [scss_file ''style'' (BufferContents ''a { b: c }'')]))) = [''a { b: c }'']"
  by (simp add: run_simps example_simps createCompileArguments_def file_contents_def
        compile_call_def touch_def merge_sourceMap_def)

lemma run_compile_failure_example:
  "run no_options (example_env (Inr failing_compiler))
     [scss_file ''error'' (BufferContents ''a {''), scss_file ''style'' (BufferContents ''a { b: c }'')]
   = \<lparr>pushed = [],
      failure = Some \<lparr>plugin = ''gulp-sass-embedded'',
                      cause = Cause ((raw_error (Some (span_at (Some 5) (Some 10))) (Some ''expected selector.''))
                                \<lparr>error_object.line := Some 6, error_object.column := Some 11,
                                  messageOriginal := Some ''expected selector.'',
                                  messageFormatted := Some ''Generic error message''\<rparr>),
                      showProperties = False\<rparr>,
      teardown = Callback None None,
      final = \<lparr>compiler = Some failing_compiler,
               compiled = [(''a {'',
                 \<lparr>compile_options.sync = False, compile_options.passthrough = [],
                  url = ''file:///scss/error.scss'', compile_options.sourceMap = False,
                  sourceMapIncludeSources = False, syntax = ''scss'',
                  compile_options.loadPaths = [JString ''/scss'']\<rparr>)],
               disposed = 1, emitted = []\<rparr>\<rparr>"
proof -
  have c: "compileStringAsync failing_compiler =
             (\<lambda>src co. Inl (raw_error (Some (span_at (Some 5) (Some 10))) (Some ''expected selector.'')))"
          "dispose failing_compiler = None"
    by (simp_all add: failing_compiler_def)
  show ?thesis
    by (simp add: run_simps example_simps c createCompileArguments_def file_contents_def
          file_path_def file_sourceMap_def file_extname_def file_dirname_def fileSyntax_def
          options_loadPaths_def new_Set_def Set_add_def compile_call_def formatSassError_def
          annotate_def span_start_def nullish_default_def raw_error_def span_at_def)
qed

subsection \<open>The transform engine\<close>

text \<open>
  Claim C1, as stated, fails: an asset with zero-length contents whose base name begins
  with \<^verbatim>\<open>_\<close> meets the partial check first and is dropped, not forwarded.
\<close>

theorem empty_partial_not_forwarded:
  "pushed (run no_options (example_env (Inr (echo_compiler None))) [scss_file ''_partial'' (BufferContents [])]) = []
   \<and> failure (run no_options (example_env (Inr (echo_compiler None))) [scss_file ''_partial'' (BufferContents [])]) = None"
  by (simp add: run_simps example_simps)

text \<open>
  Claim C1, amended. A buffered asset with zero-length contents whose base name does not
  begin with \<^verbatim>\<open>_\<close> is forwarded with its path passed through
  \<^verbatim>\<open>replaceExtension(path, '.css')\<close> and nothing else changed; the engine, and with it the
  list of compile calls, is as before, and the run goes on with the next asset.
\<close>

theorem empty_asset_forwarded:
  assumes "contents f = Some (BufferContents [])"
      and "basename f = Some b" and "\<forall>rest. b \<noteq> CHR ''_'' # rest"
  shows "transform opts env s f =
           (Callback None (Some (f\<lparr>path := map_option (\<lambda>p. replaceExtension env p ''.css'') (path f)\<rparr>)), s)
       \<and> compiled (snd (transform opts env s f)) = compiled s
       \<and> write_all opts env s (f # fs) =
           (case write_all opts env s fs of
              (out, err, s') \<Rightarrow>
                (f\<lparr>path := map_option (\<lambda>p. replaceExtension env p ''.css'') (path f)\<rparr> # out, err, s'))"
proof -
  have nb: "\<not> startsWith b ''_''"
    using assms(3) by (cases b) (auto simp: startsWith_def)
  have t: "transform opts env s f =
           (Callback None (Some (f\<lparr>path := map_option (\<lambda>p. replaceExtension env p ''.css'') (path f)\<rparr>)), s)"
    using assms(1,2) nb
    by (simp add: transform_def transform_try_def isNull_def isStream_def rewrite_path_def)
  show ?thesis by (simp add: t)
qed

text \<open>
  The empty \<^verbatim>\<open>empty.scss\<close> of the test suite: forwarded as \<^verbatim>\<open>empty.css\<close>, no compile call.
\<close>

theorem empty_asset_forwarded_witness:
  "pushed (run no_options (example_env (Inr (echo_compiler None))) [scss_file ''empty'' (BufferContents [])])
     = [(scss_file ''empty'' (BufferContents []))\<lparr>path := Some ''/scss/empty.css''\<rparr>]
   \<and> compiled (final (run no_options (example_env (Inr (echo_compiler None))) [scss_file ''empty'' (BufferContents [])])) = []"
  using empty_asset_forwarded [of "scss_file ''empty'' (BufferContents [])" "''empty.scss''"
          no_options "example_env (Inr (echo_compiler None))"
          "snd (open_hook no_options (example_env (Inr (echo_compiler None))) initial)" "[]"]
  by (simp add: run_simps example_simps)

text \<open>
  Claim C2. A buffered asset whose base name begins with \<^verbatim>\<open>_\<close> gets the callback without
  data and without error, whatever its contents: nothing is pushed for it, the engine is
  unchanged, and the run continues as if the asset had not been written.
\<close>

theorem partial_dropped:
  assumes "contents f = Some (BufferContents b)" and "basename f = Some (CHR ''_'' # rest)"
  shows "transform opts env s f = (Callback None None, s)
       \<and> write_all opts env s (f # fs) = write_all opts env s fs"
proof -
  have t: "transform opts env s f = (Callback None None, s)"
    using assms
    by (simp add: transform_def transform_try_def isNull_def isStream_def startsWith_def)
  show ?thesis by (simp add: t split: prod.splits)
qed

text \<open>
  A partial followed by an empty file: only the second reaches the output.
\<close>

theorem partial_dropped_witness:
  "pushed (run no_options (example_env (Inr (echo_compiler None)))
             [scss_file ''_partial'' (BufferContents ''a { b: c }''), scss_file ''empty'' (BufferContents [])])
     = [(scss_file ''empty'' (BufferContents []))\<lparr>path := Some ''/scss/empty.css''\<rparr>]
   \<and> failure (run no_options (example_env (Inr (echo_compiler None)))
             [scss_file ''_partial'' (BufferContents ''a { b: c }''), scss_file ''empty'' (BufferContents [])])
     = None"
  using partial_dropped [of "scss_file ''_partial'' (BufferContents ''a { b: c }'')" "''a { b: c }''"
          "''partial.scss''" no_options "example_env (Inr (echo_compiler None))"
          "snd (open_hook no_options (example_env (Inr (echo_compiler None))) initial)"
          "[scss_file ''empty'' (BufferContents [])]"]
  by (simp add: run_simps example_simps)

text \<open>
  Claim C3. An asset whose contents are a stream gets the callback with the plugin error
  \<^verbatim>\<open>Streams are not supported!\<close> and the engine unchanged, so no compile call is made for
  it. A run that reaches it ends there: what the assets before it pushed and compiled
  stands, the assets after it are not processed, and every run that holds such an asset
  fails.
\<close>

theorem stream_rejected:
  assumes "contents f = Some StreamContents"
  shows "transform opts env s f = (Callback (Some streams_not_supported) None, s)
       \<and> write_all opts env s (pre @ f # post) =
           (case write_all opts env s pre of
              (out, Some e, s') \<Rightarrow> (out, Some e, s')
            | (out, None, s') \<Rightarrow> (out, Some streams_not_supported, s'))
       \<and> failure (run opts env (pre @ f # post)) \<noteq> None"
proof -
  have t: "\<And>s. transform opts env s f = (Callback (Some streams_not_supported) None, s)"
    using assms
    by (simp add: transform_def transform_try_def isNull_def isStream_def PluginError_def
          PLUGIN_NAME_def streams_not_supported_def)
  have w: "write_all opts env s (pre @ f # post) =
           (case write_all opts env s pre of
              (out, Some e, s') \<Rightarrow> (out, Some e, s')
            | (out, None, s') \<Rightarrow> (out, Some streams_not_supported, s'))" for s
    by (simp add: write_all_append t split: prod.splits option.splits)
  have r: "failure (run opts env (pre @ f # post)) \<noteq> None"
    by (auto simp: run_def w split: prod.splits option.splits callback.splits)
  show ?thesis using t w r by blast
qed

text \<open>
  A stream between an empty file and a stylesheet: the run fails with the stream error
  and the stylesheet is never compiled.
\<close>

theorem stream_rejected_witness:
  "failure (run no_options (example_env (Inr (echo_compiler None)))
              [scss_file ''empty'' (BufferContents []), scss_file ''live'' StreamContents,
               scss_file ''style'' (BufferContents ''a { b: c }'')])
     = Some streams_not_supported
   \<and> compiled (final (run no_options (example_env (Inr (echo_compiler None)))
              [scss_file ''empty'' (BufferContents []), scss_file ''live'' StreamContents,
               scss_file ''style'' (BufferContents ''a { b: c }'')])) = []"
  using stream_rejected [of "scss_file ''live'' StreamContents" no_options
          "example_env (Inr (echo_compiler None))"
          "snd (open_hook no_options (example_env (Inr (echo_compiler None))) initial)"
          "[scss_file ''empty'' (BufferContents [])]"
          "[scss_file ''style'' (BufferContents ''a { b: c }'')]"]
  by (simp add: run_simps example_simps)

text \<open>
  Claim C4, as stated, fails: when the factory fails in \<^verbatim>\<open>open\<close> there is no compiler, and
  \<^verbatim>\<open>destroy\<close> finds \<^verbatim>\<open>compiler\<close> undefined and calls no \<^verbatim>\<open>dispose\<close>.
\<close>

theorem failed_open_never_disposes:
  "disposed (final (run no_options (example_env (Inl (new_Error ''Initialization error''))) [])) = 0
   \<and> failure (run no_options (example_env (Inl (new_Error ''Initialization error''))) [])
       = Some \<lparr>plugin = ''gulp-sass-embedded'', cause = Cause (new_Error ''Initialization error''),
               showProperties = True\<rparr>"
  by (simp add: run_simps example_simps)

text \<open>
  Claim C4, amended. \<^verbatim>\<open>destroy\<close> always ends with \<^verbatim>\<open>callback()\<close>, without an error. In a run
  whose compiler was created, \<^verbatim>\<open>dispose\<close> is called exactly once, whatever the assets did;
  when it throws, one \<^verbatim>\<open>error\<close> event carrying the wrapped failure is emitted (recorded in
  \<^term>\<open>emitted\<close>; the teardown callback itself carries none). In a run whose compiler could
  not be created, \<^verbatim>\<open>dispose\<close> is not called, no asset is processed and the run fails with
  the wrapped initialization error.
\<close>

theorem teardown_disposes_once:
  "fst (destroy s) = Callback None None
   \<and> teardown (run opts env files) = Callback None None
   \<and> (\<forall>c. (if options.sync opts then initCompiler env else initAsyncCompiler env) = Inr c \<longrightarrow>
         disposed (final (run opts env files)) = 1
       \<and> emitted (final (run opts env files)) =
           (case dispose c of
              None \<Rightarrow> []
            | Some e \<Rightarrow> [\<lparr>plugin = ''gulp-sass-embedded'', cause = Cause e, showProperties = False\<rparr>]))
   \<and> (\<forall>e. (if options.sync opts then initCompiler env else initAsyncCompiler env) = Inl e \<longrightarrow>
         disposed (final (run opts env files)) = 0
       \<and> emitted (final (run opts env files)) = []
       \<and> pushed (run opts env files) = []
       \<and> failure (run opts env files) =
           Some \<lparr>plugin = ''gulp-sass-embedded'', cause = Cause e, showProperties = True\<rparr>)"
proof -
  let ?init = "if options.sync opts then initCompiler env else initAsyncCompiler env"
  have d: "fst (destroy s) = Callback None None" for s
    by (simp add: destroy_def split: option.splits)
  have td: "teardown (run opts env files) = Callback None None"
    using d by (auto simp: run_def split: prod.splits option.splits callback.splits) (metis fst_conv)+
  have ok: "disposed (final (run opts env files)) = 1
       \<and> emitted (final (run opts env files)) =
           (case dispose c of
              None \<Rightarrow> []
            | Some e \<Rightarrow> [\<lparr>plugin = ''gulp-sass-embedded'', cause = Cause e, showProperties = False\<rparr>])"
    if i: "?init = Inr c" for c
  proof -
    let ?s = "initial\<lparr>compiler := Some c\<rparr>"
    obtain out err s' where w: "write_all opts env ?s files = (out, err, s')"
      by (metis surj_pair)
    have k: "compiler s' = Some c \<and> disposed s' = 0 \<and> emitted s' = []"
      using write_all_keeps_engine [of opts env ?s files] w by (simp add: initial_def)
    have o: "open_hook opts env initial = (Callback None None, ?s)"
      using i by (simp add: open_hook_def)
    show ?thesis
      unfolding run_def o
      using k by (simp add: w destroy_def PluginError_def PLUGIN_NAME_def split: option.splits)
  qed
  have bad: "disposed (final (run opts env files)) = 0
       \<and> emitted (final (run opts env files)) = []
       \<and> pushed (run opts env files) = []
       \<and> failure (run opts env files) =
           Some \<lparr>plugin = ''gulp-sass-embedded'', cause = Cause e, showProperties = True\<rparr>"
    if i: "?init = Inl e" for e
  proof -
    have o: "open_hook opts env initial =
               (Callback (Some (PluginError PLUGIN_NAME (Cause e) True)) None, initial)"
      using i by (simp add: open_hook_def)
    show ?thesis
      unfolding run_def o
      by (simp add: destroy_def initial_def PluginError_def PLUGIN_NAME_def)
  qed
  show ?thesis using d td ok bad by blast
qed

text \<open>
  A compiler whose \<^verbatim>\<open>dispose\<close> throws, and a factory that throws.
\<close>

theorem teardown_disposes_once_witness:
  "teardown (run no_options (example_env (Inr (echo_compiler (Some (new_Error ''Dispose error'')))))
       [scss_file ''style'' (BufferContents ''a { b: c }'')]) = Callback None None
   \<and> disposed (final (run no_options (example_env (Inr (echo_compiler (Some (new_Error ''Dispose error'')))))
       [scss_file ''style'' (BufferContents ''a { b: c }'')])) = 1
   \<and> emitted (final (run no_options (example_env (Inr (echo_compiler (Some (new_Error ''Dispose error'')))))
       [scss_file ''style'' (BufferContents ''a { b: c }'')]))
       = [\<lparr>plugin = ''gulp-sass-embedded'', cause = Cause (new_Error ''Dispose error''),
           showProperties = False\<rparr>]
   \<and> failure (run no_options (example_env (Inr (echo_compiler (Some (new_Error ''Dispose error'')))))
       [scss_file ''style'' (BufferContents ''a { b: c }'')]) = None
   \<and> disposed (final (run no_options (example_env (Inl (new_Error ''Initialization error'')))
       [scss_file ''style'' (BufferContents ''a { b: c }'')])) = 0"
  using teardown_disposes_once [of initial no_options
          "example_env (Inr (echo_compiler (Some (new_Error ''Dispose error''))))"
          "[scss_file ''style'' (BufferContents ''a { b: c }'')]"]
        teardown_disposes_once [of initial no_options
          "example_env (Inl (new_Error ''Initialization error''))"
          "[scss_file ''style'' (BufferContents ''a { b: c }'')]"]
  by (simp add: run_simps example_simps createCompileArguments_def file_contents_def
        compile_call_def touch_def merge_sourceMap_def)

subsection \<open>The error normalizer\<close>

text \<open>
  Claim C5. When the error carries a span with a start point, the normalizer writes
  \<^verbatim>\<open>line\<close> and \<^verbatim>\<open>column\<close> as the start's line and column plus one, a missing start
  field counting as 0 (so both become 1 when the start object has neither). When the error
  has no span, or a span without a start, \<^verbatim>\<open>line\<close> and \<^verbatim>\<open>column\<close> are what they were:
  unset stays unset.
\<close>

theorem position_one_based:
  assumes "r < length h" and "formatSassError h (Some r) = (h', r')"
  shows "(\<forall>sp st L. span (h ! r) = Some sp \<and> start sp = Some st \<and> source_location.line st = Some L
            \<longrightarrow> error_object.line (h' ! r') = Some (L + 1))
       \<and> (\<forall>sp st C. span (h ! r) = Some sp \<and> start sp = Some st \<and> source_location.column st = Some C
            \<longrightarrow> error_object.column (h' ! r') = Some (C + 1))
       \<and> (\<forall>sp st. span (h ! r) = Some sp \<and> start sp = Some st \<and> source_location.line st = None
            \<longrightarrow> error_object.line (h' ! r') = Some 1)
       \<and> (\<forall>sp st. span (h ! r) = Some sp \<and> start sp = Some st \<and> source_location.column st = None
            \<longrightarrow> error_object.column (h' ! r') = Some 1)
       \<and> (span (h ! r) = None \<or> (\<exists>sp. span (h ! r) = Some sp \<and> start sp = None)
            \<longrightarrow> error_object.line (h' ! r') = error_object.line (h ! r)
              \<and> error_object.column (h' ! r') = error_object.column (h ! r))"
proof -
  have obj: "h' ! r' = annotate (h ! r)"
    using assms by (auto simp: formatSassError_def)
  show ?thesis
    unfolding obj
    by (auto simp: annotate_def span_start_def nullish_default_def Let_def)
qed

text \<open>
  The three error objects of the test suite (a start at 5:10, an empty start object, no
  span) and a span without a start.
\<close>

theorem position_one_based_witness:
  "(let res = formatSassError [raw_error (Some (span_at (Some 5) (Some 10))) None] (Some 0)
    in error_object.line (fst res ! snd res) = Some 6 \<and> error_object.column (fst res ! snd res) = Some 11)
   \<and> (let res = formatSassError [raw_error (Some (span_at None None)) None] (Some 0)
    in error_object.line (fst res ! snd res) = Some 1 \<and> error_object.column (fst res ! snd res) = Some 1)
   \<and> (let res = formatSassError [raw_error None None] (Some 0)
    in error_object.line (fst res ! snd res) = None \<and> error_object.column (fst res ! snd res) = None)
   \<and> (let res = formatSassError [raw_error (Some \<lparr>start = None\<rparr>) None] (Some 0)
    in error_object.line (fst res ! snd res) = None \<and> error_object.column (fst res ! snd res) = None)"
  using position_one_based [of 0 "[raw_error (Some (span_at (Some 5) (Some 10))) None]"
          "fst (formatSassError [raw_error (Some (span_at (Some 5) (Some 10))) None] (Some 0))"
          "snd (formatSassError [raw_error (Some (span_at (Some 5) (Some 10))) None] (Some 0))"]
        position_one_based [of 0 "[raw_error (Some (span_at None None)) None]"
          "fst (formatSassError [raw_error (Some (span_at None None)) None] (Some 0))"
          "snd (formatSassError [raw_error (Some (span_at None None)) None] (Some 0))"]
        position_one_based [of 0 "[raw_error None None]"
          "fst (formatSassError [raw_error None None] (Some 0))"
          "snd (formatSassError [raw_error None None] (Some 0))"]
        position_one_based [of 0 "[raw_error (Some \<lparr>start = None\<rparr>) None]"
          "fst (formatSassError [raw_error (Some \<lparr>start = None\<rparr>) None] (Some 0))"
          "snd (formatSassError [raw_error (Some \<lparr>start = None\<rparr>) None] (Some 0))"]
  by (simp add: raw_error_def span_at_def Let_def)

text \<open>
  Claim C6, as stated, fails: the generic error made for a missing error value is
  returned at once, with its \<^verbatim>\<open>message\<close> but with neither \<^verbatim>\<open>messageOriginal\<close> nor
  \<^verbatim>\<open>messageFormatted\<close>.
\<close>

theorem generic_error_without_message_fields:
  "message (fst (formatSassError [] None) ! snd (formatSassError [] None)) = Some ''No error message provided''
   \<and> messageOriginal (fst (formatSassError [] None) ! snd (formatSassError [] None)) = None
   \<and> messageFormatted (fst (formatSassError [] None) ! snd (formatSassError [] None)) = None"
  by (simp add: formatSassError_def new_Error_def)

text \<open>
  Claim C6, amended. The normalizer always returns. Given no error it allocates the generic
  error \<^verbatim>\<open>No error message provided\<close> and leaves the store as it was otherwise. Given an
  error object it returns that object, with \<^verbatim>\<open>messageOriginal\<close> set from \<^verbatim>\<open>sassMessage\<close> when
  there is one and from \<^verbatim>\<open>message\<close> otherwise, and \<^verbatim>\<open>messageFormatted\<close> set from \<^verbatim>\<open>message\<close>.
\<close>

theorem normalizer_total:
  "(\<exists>h'. formatSassError h None = (h', length h)
        \<and> take (length h) h' = h \<and> length h' = Suc (length h)
        \<and> h' ! length h = new_Error ''No error message provided'')
   \<and> (r < length h \<longrightarrow>
        (\<exists>h'. formatSassError h (Some r) = (h', r) \<and> length h' = length h
           \<and> messageOriginal (h' ! r) =
               (case sassMessage (h ! r) of Some m \<Rightarrow> Some m | None \<Rightarrow> message (h ! r))
           \<and> messageFormatted (h' ! r) = message (h ! r)))"
proof -
  have generic: "\<exists>h'. formatSassError h None = (h', length h)
        \<and> take (length h) h' = h \<and> length h' = Suc (length h)
        \<and> h' ! length h = new_Error ''No error message provided''"
    by (simp add: formatSassError_def)
  have fields: "messageOriginal (annotate e) =
                  (case sassMessage e of Some m \<Rightarrow> Some m | None \<Rightarrow> message e)
                \<and> messageFormatted (annotate e) = message e" for e
    by (simp add: annotate_def span_start_def Let_def split: option.splits)
  have given: "\<exists>h'. formatSassError h (Some r) = (h', r) \<and> length h' = length h
           \<and> messageOriginal (h' ! r) =
               (case sassMessage (h ! r) of Some m \<Rightarrow> Some m | None \<Rightarrow> message (h ! r))
           \<and> messageFormatted (h' ! r) = message (h ! r)" if "r < length h"
    using that fields [of "h ! r"] by (simp add: formatSassError_def)
  show ?thesis using generic given by blast
qed

text \<open>
  An error with a \<^verbatim>\<open>sassMessage\<close> and one without.
\<close>

theorem normalizer_total_witness:
  "(\<exists>h'. formatSassError [raw_error None (Some ''Specific Sass error'')] (Some 0) = (h', 0)
      \<and> messageOriginal (h' ! 0) = Some ''Specific Sass error''
      \<and> messageFormatted (h' ! 0) = Some ''Generic error message'')
   \<and> (\<exists>h'. formatSassError [raw_error None None] (Some 0) = (h', 0)
      \<and> messageOriginal (h' ! 0) = Some ''Generic error message''
      \<and> messageFormatted (h' ! 0) = Some ''Generic error message'')"
  using normalizer_total [of "[raw_error None (Some ''Specific Sass error'')]" 0]
        normalizer_total [of "[raw_error None None]" 0]
  by (auto simp: raw_error_def)

text \<open>
  Claim C10. Normalizing an error object a second time returns the same reference and
  leaves the store, hence every field of the object, as the first call left it; the fields
  the normalizer reads (\<^verbatim>\<open>span\<close>, \<^verbatim>\<open>sassMessage\<close>, \<^verbatim>\<open>message\<close>) are never written.
\<close>

theorem normalizer_idempotent:
  assumes "r < length h" and "formatSassError h (Some r) = (h', r')"
  shows "formatSassError h' (Some r') = (h', r') \<and> r' = r
       \<and> span (h' ! r) = span (h ! r) \<and> sassMessage (h' ! r) = sassMessage (h ! r)
       \<and> message (h' ! r) = message (h ! r)"
  using assms by (auto simp: formatSassError_def annotate_idem annotate_reads)

text \<open>
  The error with a start at 5:10, normalized twice.
\<close>

theorem normalizer_idempotent_witness:
  "formatSassError (fst (formatSassError [raw_error (Some (span_at (Some 5) (Some 10))) None] (Some 0)))
      (Some (snd (formatSassError [raw_error (Some (span_at (Some 5) (Some 10))) None] (Some 0))))
   = formatSassError [raw_error (Some (span_at (Some 5) (Some 10))) None] (Some 0)"
  using normalizer_idempotent [of 0 "[raw_error (Some (span_at (Some 5) (Some 10))) None]"
          "fst (formatSassError [raw_error (Some (span_at (Some 5) (Some 10))) None] (Some 0))"
          "snd (formatSassError [raw_error (Some (span_at (Some 5) (Some 10))) None] (Some 0))"]
  by (simp add: formatSassError_def)

subsection \<open>The argument builder\<close>

text \<open>
  Claim C7. The syntax handed to the compiler is a function of the asset's \<^verbatim>\<open>extname\<close>
  alone: \<^verbatim>\<open>.sass\<close> gives \<^verbatim>\<open>indented\<close>, \<^verbatim>\<open>.css\<close> gives \<^verbatim>\<open>css\<close>, and every other value,
  the empty string, a missing property and a missing asset among them, gives \<^verbatim>\<open>scss\<close>.
\<close>

theorem dialect_from_extension:
  assumes "createCompileArguments u asset opts = Inr (src, co)"
  shows "syntax co =
           (case asset of
              None \<Rightarrow> ''scss''
            | Some f \<Rightarrow>
                if extname f = JString ''.sass'' then ''indented''
                else if extname f = JString ''.css'' then ''css''
                else ''scss'')"
proof (cases asset)
  case None
  then show ?thesis using assms
    by (auto simp: createCompileArguments_def file_extname_def fileSyntax_def split: sum.splits)
next
  case (Some f)
  then show ?thesis using assms
    by (cases "extname f")
       (auto simp: createCompileArguments_def file_extname_def fileSyntax_def split: sum.splits)
qed

text \<open>
  The three dialects, an unknown, an empty and a missing extension, and a missing asset.
\<close>

theorem dialect_from_extension_witness:
  "(\<exists>co. createCompileArguments id (Some (styles (JString ''.sass''))) no_options = Inr (''a'', co)
      \<and> syntax co = ''indented'')
   \<and> (\<exists>co. createCompileArguments id (Some (styles (JString ''.css''))) no_options = Inr (''a'', co)
      \<and> syntax co = ''css'')
   \<and> (\<exists>co. createCompileArguments id (Some (styles (JString ''.less''))) no_options = Inr (''a'', co)
      \<and> syntax co = ''scss'')
   \<and> (\<exists>co. createCompileArguments id (Some (styles (JString ''''))) no_options = Inr (''a'', co)
      \<and> syntax co = ''scss'')
   \<and> (\<exists>co. createCompileArguments id (Some (styles JUndefined)) no_options = Inr (''a'', co)
      \<and> syntax co = ''scss'')
   \<and> (\<exists>co. createCompileArguments id None no_options = Inr ('''', co) \<and> syntax co = ''scss'')"
  using dialect_from_extension [of id "Some (styles (JString ''.sass''))" no_options]
        dialect_from_extension [of id "Some (styles (JString ''.css''))" no_options]
        dialect_from_extension [of id "Some (styles (JString ''.less''))" no_options]
        dialect_from_extension [of id "Some (styles (JString ''''))" no_options]
        dialect_from_extension [of id "Some (styles JUndefined)" no_options]
        dialect_from_extension [of id None no_options]
  by (simp add: createCompileArguments_def file_contents_def styles_def)

text \<open>
  Claim C8, as stated, fails in its example: for an asset in directory \<open>D\<close> and caller
  paths \<open>[D, X]\<close> the list is not \<open>[D, X]\<close> when \<open>X\<close> is \<open>D\<close> again (it is \<open>[D]\<close>) or when
  \<open>X\<close> is the empty string (it is \<open>[D]\<close> as well).
\<close>

theorem search_paths_repeated_or_empty_entry:
  "createCompileArguments id (Some (styles (JString ''.scss'')))
     \<lparr>options.sync = False,
      options.loadPaths = Some [JString ''/path/to'', JString ''/path/to''],
      options.passthrough = []\<rparr>
   = Inr (''a'',
       \<lparr>compile_options.sync = False, compile_options.passthrough = [], url = ''/path/to/styles'',
        compile_options.sourceMap = False, sourceMapIncludeSources = False, syntax = ''scss'',
        compile_options.loadPaths = [JString ''/path/to'']\<rparr>)
   \<and> createCompileArguments id (Some (styles (JString ''.scss'')))
     \<lparr>options.sync = False,
      options.loadPaths = Some [JString ''/path/to'', JString ''''],
      options.passthrough = []\<rparr>
   = Inr (''a'',
       \<lparr>compile_options.sync = False, compile_options.passthrough = [], url = ''/path/to/styles'',
        compile_options.sourceMap = False, sourceMapIncludeSources = False, syntax = ''scss'',
        compile_options.loadPaths = [JString ''/path/to'']\<rparr>)"
  by (simp add: createCompileArguments_def file_contents_def file_path_def file_sourceMap_def
        file_extname_def file_dirname_def fileSyntax_def options_loadPaths_def new_Set_def
        Set_add_def styles_def)

text \<open>
  Claim C8, amended. The \<^verbatim>\<open>loadPaths\<close> handed to the compiler are the search-path list of
  the specification, computed from the asset's own \<^verbatim>\<open>dirname\<close> and the caller's
  \<^verbatim>\<open>loadPaths\<close>: the directory first, then the caller's paths, every entry kept at its first
  occurrence only, and only the non-empty strings. The list has no duplicates. A directory
  that is a non-empty string is its first entry and occurs nowhere else in it. For an
  asset in directory \<open>D\<close> and caller paths \<open>[D, X]\<close> the list is \<open>[D, X]\<close> when \<open>D\<close> and \<open>X\<close>
  are two different non-empty strings; an empty \<open>D\<close> or \<open>X\<close> is left out, and so is an \<open>X\<close>
  that repeats \<open>D\<close>.
\<close>

theorem search_paths_first_seen:
  assumes "createCompileArguments u asset opts = Inr (src, co)"
  shows "compile_options.loadPaths co =
           searchPaths_spec (case asset of None \<Rightarrow> JUndefined | Some f \<Rightarrow> dirname f)
             (case options.loadPaths opts of None \<Rightarrow> [] | Some ps \<Rightarrow> ps)
         \<and> distinct (compile_options.loadPaths co)
         \<and> (\<forall>p \<in> set (compile_options.loadPaths co). \<exists>s. p = JString s \<and> s \<noteq> [])
         \<and> (\<forall>f D. asset = Some f \<and> dirname f = JString D \<and> D \<noteq> []
              \<longrightarrow> (\<exists>rest. compile_options.loadPaths co = JString D # rest \<and> JString D \<notin> set rest))
         \<and> (\<forall>f D X. asset = Some f \<and> dirname f = JString D
                \<and> options.loadPaths opts = Some [JString D, JString X]
              \<longrightarrow> compile_options.loadPaths co =
                    (if D = [] then [] else [JString D])
                    @ (if X = [] \<or> X = D then [] else [JString X]))"
proof -
  let ?d = "case asset of None \<Rightarrow> JUndefined | Some f \<Rightarrow> dirname f"
  let ?ps = "case options.loadPaths opts of None \<Rightarrow> [] | Some ps \<Rightarrow> ps"
  have lp: "compile_options.loadPaths co =
              new_Set (filter is_path (file_dirname asset # options_loadPaths opts))"
    using assms by (auto simp: createCompileArguments_def split: sum.splits)
  have ps: "options_loadPaths opts = ?ps"
    by (simp add: options_loadPaths_def)
  have d: "filter is_path (file_dirname asset # xs) = filter is_path (?d # xs)" for xs
  proof (cases asset)
    case None
    then show ?thesis by (simp add: file_dirname_def)
  next
    case (Some f)
    then show ?thesis by (cases "dirname f") (simp_all add: file_dirname_def)
  qed
  have raw: "compile_options.loadPaths co = dedup_first_seen (filter is_path (?d # ?ps))"
    by (simp only: lp ps d new_Set_dedup)
  have eq: "compile_options.loadPaths co = searchPaths_spec ?d ?ps"
    by (simp only: raw searchPaths_spec_def filter_dedup_first_seen)
  have dist: "distinct (compile_options.loadPaths co)"
    by (simp only: raw distinct_dedup_first_seen)
  have strs: "\<forall>p \<in> set (compile_options.loadPaths co). \<exists>s. p = JString s \<and> s \<noteq> []"
  proof
    fix p assume "p \<in> set (compile_options.loadPaths co)"
    then have "p \<in> set (filter is_path (?d # ?ps))"
      by (simp only: raw set_dedup_first_seen)
    then have "is_path p" by (simp only: set_filter mem_Collect_eq)
    then show "\<exists>s. p = JString s \<and> s \<noteq> []" by (cases p) auto
  qed
  have first: "\<forall>f D. asset = Some f \<and> dirname f = JString D \<and> D \<noteq> []
              \<longrightarrow> (\<exists>rest. compile_options.loadPaths co = JString D # rest \<and> JString D \<notin> set rest)"
  proof (intro allI impI)
    fix f D assume a: "asset = Some f \<and> dirname f = JString D \<and> D \<noteq> []"
    then have "compile_options.loadPaths co =
                 JString D # dedup_first_seen (filter (\<lambda>y. y \<noteq> JString D) (filter is_path ?ps))"
      by (simp add: raw)
    moreover have "JString D \<notin> set (dedup_first_seen (filter (\<lambda>y. y \<noteq> JString D) (filter is_path ?ps)))"
      by (simp add: set_dedup_first_seen)
    ultimately show "\<exists>rest. compile_options.loadPaths co = JString D # rest \<and> JString D \<notin> set rest"
      by blast
  qed
  have inst: "\<forall>f D X. asset = Some f \<and> dirname f = JString D
                \<and> options.loadPaths opts = Some [JString D, JString X]
              \<longrightarrow> compile_options.loadPaths co =
                    (if D = [] then [] else [JString D])
                    @ (if X = [] \<or> X = D then [] else [JString X])"
    by (auto simp: raw)
  show ?thesis using eq dist strs first inst by blast
qed

text \<open>
  An asset in \<^verbatim>\<open>/path/to\<close> whose caller paths do not name that directory, hold a number and
  an empty string, and repeat \<^verbatim>\<open>/custom/path\<close>: the directory comes first. And the same
  asset with the caller paths \<^verbatim>\<open>['/path/to', '/custom/path']\<close>.
\<close>

theorem search_paths_first_seen_witness:
  "(\<exists>co. createCompileArguments id (Some (styles (JString ''.scss'')))
            \<lparr>options.sync = False,
             options.loadPaths = Some [JString ''/custom/path'', JNumber 3, JString '''', JString ''/other'', JString ''/custom/path''],
             options.passthrough = []\<rparr> = Inr (''a'', co)
     \<and> compile_options.loadPaths co = [JString ''/path/to'', JString ''/custom/path'', JString ''/other''])
   \<and> (\<exists>co. createCompileArguments id (Some (styles (JString ''.scss'')))
            \<lparr>options.sync = False,
             options.loadPaths = Some [JString ''/path/to'', JString ''/custom/path''],
             options.passthrough = []\<rparr> = Inr (''a'', co)
     \<and> compile_options.loadPaths co = [JString ''/path/to'', JString ''/custom/path''])"
  using search_paths_first_seen [of id "Some (styles (JString ''.scss''))"
          "\<lparr>options.sync = False,
            options.loadPaths = Some [JString ''/custom/path'', JNumber 3, JString '''', JString ''/other'', JString ''/custom/path''],
            options.passthrough = []\<rparr>"]
        search_paths_first_seen [of id "Some (styles (JString ''.scss''))"
          "\<lparr>options.sync = False,
            options.loadPaths = Some [JString ''/path/to'', JString ''/custom/path''],
            options.passthrough = []\<rparr>"]
  by (simp add: createCompileArguments_def file_contents_def searchPaths_spec_def styles_def)

text \<open>
  Claim C9, as stated, fails: with a missing asset the caller's search paths are still
  handed to the compiler, so the search-path list is not empty when the caller gave one.
\<close>

theorem null_asset_with_caller_paths:
  "createCompileArguments id None
     \<lparr>options.sync = False, options.loadPaths = Some [JString ''/custom/path''], options.passthrough = []\<rparr>
   = Inr ('''',
       \<lparr>compile_options.sync = False, compile_options.passthrough = [], url = '''',
        compile_options.sourceMap = False, sourceMapIncludeSources = False, syntax = ''scss'',
        compile_options.loadPaths = [JString ''/custom/path'']\<rparr>)"
  by (simp add: createCompileArguments_def file_contents_def file_path_def file_sourceMap_def
        file_extname_def file_dirname_def fileSyntax_def options_loadPaths_def new_Set_def Set_add_def)

text \<open>
  Claim C9, amended. For a missing asset the builder returns (it does not throw) the empty
  source text and the caller's search paths alone, de-duplicated and filtered, with no
  directory put in front; the list is empty when the caller gives no search paths.
\<close>

theorem null_asset_fallback:
  "\<exists>co. createCompileArguments u None opts = Inr ('''', co)
     \<and> compile_options.loadPaths co = dedup_first_seen (filter is_path (options_loadPaths opts))
     \<and> (options.loadPaths opts = None \<longrightarrow> compile_options.loadPaths co = [])"
  by (simp add: createCompileArguments_def file_contents_def file_dirname_def options_loadPaths_def
        new_Set_dedup)

text \<open>
  The call \<^verbatim>\<open>createCompileArguments(null)\<close> of the test suite.
\<close>

theorem null_asset_fallback_witness:
  "\<exists>co. createCompileArguments id None no_options = Inr ('''', co) \<and> compile_options.loadPaths co = []"
  using null_asset_fallback [of id no_options]
  by (auto simp: no_options_def)

end
